theory Spec2Isabelle
  imports Main "HOL-Library.AList"
begin

section \<open>Data model of pygofile/gofile.py\<close>

text \<open>
  Python strings are modelled as \<open>string\<close>; the arguments of \<open>upload\<close> are declared
  \<open>str\<close> in the source, so \<open>str(v)\<close> is the identity on them and a value is truthy
  exactly when it is not the empty string. A Python dict is an association list kept in
  insertion order: \<open>data[k] = v\<close> is \<open>AList.update k v data\<close> (an existing key keeps its
  place, a new one is appended), and lookup is \<open>map_of\<close>. One \<open>char\<close> stands for one
  character of a Python string: the model covers the strings whose code points lie below
  256.
\<close>

text \<open>A decoded JSON document, as \<open>response.json()\<close> returns it. Fractional numbers play
  no role in the module and are left out.\<close>

datatype json =
    JNull
  | JBool bool
  | JInt int
  | JStr string
  | JList "json list"
  | JDict "(string \<times> json) list"

text \<open>The exceptions that leave the module. \<open>ValueError\<close> carries the message the module
  gives it; \<open>None\<close> stands for a message chosen by the Python library (\<open>int()\<close>, tuple
  unpacking, the \<open>datetime\<close> constructor), whose text is not modelled. \<open>ServerError\<close>
  carries the value found under \<open>"status"\<close>.\<close>

datatype error =
    ValueError "string option"
  | NotAuthenticated string
  | ServerError json
  | KeyError string
  | TypeError
  | OverflowError
  | OSError
  | TransportError

text \<open>A value of a request body: a string, or the file object opened on a path.\<close>

datatype field = Text string | FileObj string

datatype http_method = GET | POST | PUT | DELETE

datatype request = Request (meth: http_method) (url: string) (body: "(string \<times> field) list option")

text \<open>What the module takes from its surroundings: the file system (\<open>os.path.isfile\<close>,
  \<open>open(file, "rb")\<close>); the local time zone, as the function that \<open>timestamp()\<close>
  computes on a naive datetime (its argument is the datetime as seconds since
  1970-01-01T00:00:00 on its own clock, its result the Unix timestamp, or the exception
  the call raises); the text \<open>str.format\<close> produces for a JSON value that is not a
  string; \<open>urllib.parse.urljoin\<close> on the URLs for which the model does not compute it
  itself (see \<open>urljoin\<close> below); and the HTTP transport, which answers a request with
  the decoded JSON body or fails; it sees the requests issued before.\<close>

record platform =
  isfile :: "string \<Rightarrow> bool"
  open_rb :: "string \<Rightarrow> error + field"
  local_timestamp :: "int \<Rightarrow> error + int"
  repr_json :: "json \<Rightarrow> string"
  lib_urljoin :: "string \<Rightarrow> string \<Rightarrow> error + string"
  net :: "request list \<Rightarrow> request \<Rightarrow> error + json"

text \<open>The client object: \<open>self.token\<close> is \<open>None\<close> or a string.\<close>

record gofile =
  token :: "string option"

section \<open>Strings and integers of the Python library\<close>

text \<open>\<open>s.replace(" ", "")\<close>\<close>

definition remove_spaces :: "string \<Rightarrow> string" where
  "remove_spaces s = filter (\<lambda>c. c \<noteq> CHR '' '') s"

text \<open>\<open>s.split(sep)\<close> for a one-character separator: the fields between the separators,
  always at least one.\<close>

fun split_on :: "char \<Rightarrow> string \<Rightarrow> string list" where
  "split_on sep [] = [[]]"
| "split_on sep (c # cs) =
     (if c = sep then [] # split_on sep cs
      else (case split_on sep cs of
              [] \<Rightarrow> [[c]]
            | f # fs \<Rightarrow> (c # f) # fs))"

text \<open>\<open>s.split(".", maxsplit=1)[0]\<close>: the text before the first dot.\<close>

definition before_dot :: "string \<Rightarrow> string" where
  "before_dot s = takeWhile (\<lambda>c. c \<noteq> CHR ''.'') s"

definition is_digit :: "char \<Rightarrow> bool" where
  "is_digit c = (c \<in> set ''0123456789'')"

definition digit_val :: "char \<Rightarrow> int" where
  "digit_val c = of_char c - of_char CHR ''0''"

definition digit_char :: "int \<Rightarrow> char" where
  "digit_char n = char_of (of_char CHR ''0'' + n)"

text \<open>The characters \<open>int()\<close> drops around a literal: tab, line feed, vertical tab,
  form feed, carriage return and space, and of the characters from 128 on the two that
  are white space, next line (0x85) and no-break space (0xA0). The separators 0x1C to
  0x1F are not among them.\<close>

definition is_space :: "char \<Rightarrow> bool" where
  "is_space c = (c \<in> {CHR 0x09, CHR 0x0A, CHR 0x0B, CHR 0x0C, CHR 0x0D, CHR '' '',
                        CHR 0x85, CHR 0xA0})"

definition is_letter :: "char \<Rightarrow> bool" where
  "is_letter c = (c \<in> set ''abcdefghijklmnopqrstuvwxyzABCDEFGHIJKLMNOPQRSTUVWXYZ'')"

definition strip :: "string \<Rightarrow> string" where
  "strip s = rev (dropWhile is_space (rev (dropWhile is_space s)))"

text \<open>The digits of a decimal literal: digits, with single underscores allowed between
  two digits.\<close>

fun digits_ok :: "bool \<Rightarrow> string \<Rightarrow> bool" where
  "digits_ok prev_digit [] = prev_digit"
| "digits_ok prev_digit (c # cs) =
     (if is_digit c then digits_ok True cs
      else if c = CHR ''_'' then prev_digit \<and> digits_ok False cs
      else False)"

definition decimal_value :: "string \<Rightarrow> int" where
  "decimal_value ds = foldl (\<lambda>acc c. 10 * acc + digit_val c) 0 (filter is_digit ds)"

text \<open>\<open>int(s)\<close> in base 10: white space around the literal is dropped, one sign may
  lead. \<open>None\<close> is the library's \<open>ValueError\<close>. The limit recent interpreters put on
  the length of the literal (4300 digits by default) is left out.\<close>

definition py_int :: "string \<Rightarrow> int option" where
  "py_int s =
     (case strip s of
        [] \<Rightarrow> None
      | c # cs \<Rightarrow>
          (let (neg, ds) = (if c = CHR ''-'' then (True, cs)
                            else if c = CHR ''+'' then (False, cs)
                            else (False, c # cs))
           in if digits_ok False ds
              then Some (if neg then - decimal_value ds else decimal_value ds)
              else None))"

text \<open>\<open>str(n)\<close> of an integer.\<close>

function decimal_digits :: "int \<Rightarrow> string" where
  "decimal_digits n =
     (if n < 10 then [digit_char n]
      else decimal_digits (n div 10) @ [digit_char (n mod 10)])"
  by pat_completeness auto
termination
  by (relation "measure nat") auto

declare decimal_digits.simps [simp del]

definition str_int :: "int \<Rightarrow> string" where
  "str_int i = (if i < 0 then CHR ''-'' # decimal_digits (- i) else decimal_digits i)"

text \<open>\<open>str(x)\<close> of a float \<open>x\<close> whose value is the integer \<open>i\<close>: the digits followed by
  \<open>.0\<close> (the form Python prints below \<open>10^16\<close>, which covers every timestamp of the years
  1 to 9999).\<close>

definition str_float_integral :: "int \<Rightarrow> string" where
  "str_float_integral i = str_int i @ ''.0''"

section \<open>Dates\<close>

text \<open>The proleptic Gregorian calendar of \<open>datetime\<close>.\<close>

definition is_leap :: "int \<Rightarrow> bool" where
  "is_leap y = (y mod 4 = 0 \<and> (y mod 100 \<noteq> 0 \<or> y mod 400 = 0))"

definition days_in_month :: "int \<Rightarrow> int \<Rightarrow> int" where
  "days_in_month y m =
     (if m = 2 then (if is_leap y then 29 else 28)
      else if m \<in> {4, 6, 9, 11} then 30 else 31)"

definition days_before_year :: "int \<Rightarrow> int" where
  "days_before_year y = (y - 1) * 365 + (y - 1) div 4 - (y - 1) div 100 + (y - 1) div 400"

definition days_before_month :: "int \<Rightarrow> int \<Rightarrow> int" where
  "days_before_month y m =
     [0, 31, 59, 90, 120, 151, 181, 212, 243, 273, 304, 334] ! nat (m - 1)
       + (if m > 2 \<and> is_leap y then 1 else 0)"

definition ymd2ord :: "int \<Rightarrow> int \<Rightarrow> int \<Rightarrow> int" where
  "ymd2ord y m d = days_before_year y + days_before_month y m + d"

definition c_int_ok :: "int \<Rightarrow> bool" where
  "c_int_ok i = (- (2 ^ 31) \<le> i \<and> i < 2 ^ 31)"

text \<open>\<open>datetime.datetime(year, mon, day)\<close>, as the seconds from 1970-01-01T00:00:00 to
  midnight of that day, both read on the same clock. The constructor takes C ints and
  accepts the years 1 to 9999.\<close>

definition naive_midnight :: "int \<Rightarrow> int \<Rightarrow> int \<Rightarrow> error + int" where
  "naive_midnight y m d =
     (if \<not> (c_int_ok y \<and> c_int_ok m \<and> c_int_ok d) then Inl OverflowError
      else if y < 1 \<or> 9999 < y then Inl (ValueError None)
      else if m < 1 \<or> 12 < m then Inl (ValueError None)
      else if d < 1 \<or> days_in_month y m < d then Inl (ValueError None)
      else Inr ((ymd2ord y m d - ymd2ord 1970 1 1) * 86400))"

section \<open>serialize\<close>

text \<open>The \<open>expire\<close> branch of \<open>serialize\<close>:
  \<^verbatim>\<open>year, mon, day = (int(a) for a in str(v).split("-"))\<close>,
  \<^verbatim>\<open>timestamp = datetime.datetime(year, mon, day).timestamp()\<close>,
  \<^verbatim>\<open>str(timestamp).split(".", maxsplit=1)[0]\<close>.
  Unpacking raises \<open>ValueError\<close> unless there are exactly three fields, and so does
  \<open>int\<close> on a field that is no literal.\<close>

definition expire_value :: "platform \<Rightarrow> string \<Rightarrow> error + string" where
  "expire_value P v =
     (case map py_int (split_on CHR ''-'' v) of
        [Some year, Some mon, Some day] \<Rightarrow>
          (case naive_midnight year mon day of
             Inl e \<Rightarrow> Inl e
           | Inr t \<Rightarrow>
               (case local_timestamp P t of
                  Inl e \<Rightarrow> Inl e
                | Inr timestamp \<Rightarrow> Inr (before_dot (str_float_integral timestamp))))
      | _ \<Rightarrow> Inl (ValueError None))"

text \<open>The loop of \<open>serialize\<close> over \<open>kwargs.items()\<close>, with the dict built so far.\<close>

fun serialize_loop ::
  "platform \<Rightarrow> (string \<times> string) list \<Rightarrow> (string \<times> string) list \<Rightarrow> error + (string \<times> string) list"
where
  "serialize_loop P data [] = Inr data"
| "serialize_loop P data ((k, v) # kwargs) =
     (if k = ''folder_id'' \<and> v \<noteq> [] then Inr [(''folderId'', v)]
      else if k = ''description'' \<and> v \<noteq> [] then serialize_loop P (AList.update k v data) kwargs
      else if k = ''password'' \<and> v \<noteq> [] then serialize_loop P (AList.update k v data) kwargs
      else if k = ''tags'' \<and> v \<noteq> [] then
        serialize_loop P (AList.update k (remove_spaces v) data) kwargs
      else if k = ''expire'' \<and> v \<noteq> [] then
        (case expire_value P v of
           Inl e \<Rightarrow> Inl e
         | Inr s \<Rightarrow> serialize_loop P (AList.update k s data) kwargs)
      else serialize_loop P data kwargs)"

definition serialize :: "platform \<Rightarrow> (string \<times> string) list \<Rightarrow> error + (string \<times> string) list" where
  "serialize P kwargs = serialize_loop P [] kwargs"

section \<open>parse_json\<close>

text \<open>\<open>obj[key]\<close> for a string key: a dict gives the value or \<open>KeyError\<close>, anything else
  a JSON document decodes to gives \<open>TypeError\<close>.\<close>

fun subscript :: "json \<Rightarrow> string \<Rightarrow> error + json" where
  "subscript (JDict kvs) key = (case map_of kvs key of None \<Rightarrow> Inl (KeyError key) | Some v \<Rightarrow> Inr v)"
| "subscript _ key = Inl TypeError"

definition parse_json :: "json \<Rightarrow> error + json" where
  "parse_json response =
     (case subscript response ''status'' of
        Inl e \<Rightarrow> Inl e
      | Inr status \<Rightarrow>
          if status = JStr ''ok'' then subscript response ''data''
          else Inl (ServerError status))"

section \<open>The operations\<close>

text \<open>An operation runs against the list of requests issued so far and returns its
  result, or the exception it raises, together with the extended list. Opening and closing
  the \<open>ClientSession\<close> issues no request. \<open>send\<close> is one \<open>await session.get/post/put/delete\<close>
  followed by \<open>await data.json()\<close>.\<close>

type_synonym 'a io = "request list \<Rightarrow> (error + 'a) \<times> request list"

definition send :: "platform \<Rightarrow> request \<Rightarrow> json io" where
  "send P req calls = (net P calls req, calls @ [req])"

text \<open>\<open>not self.token\<close>\<close>

definition no_token :: "gofile \<Rightarrow> bool" where
  "no_token self = (case token self of None \<Rightarrow> True | Some t \<Rightarrow> t = [])"

text \<open>\<open>API.format(server=...)\<close>\<close>

definition API_format :: "string \<Rightarrow> string" where
  "API_format srv = ''https://'' @ srv @ ''.gofile.io/''"

text \<open>\<open>urljoin(base, rel)\<close>. When the base is \<open>https://host/\<close> with a host of letters,
  digits, dots and hyphens and the second argument is a name of letters, the library
  returns the two joined end to end. On any other arguments (an upload server whose name
  holds a question mark, a hash sign, a bracket, a tab \<dots>) the result, a URL or
  \<open>ValueError\<close>, is the platform's.\<close>

definition host_char :: "char \<Rightarrow> bool" where
  "host_char c = (is_letter c \<or> is_digit c \<or> c = CHR ''.'' \<or> c = CHR ''-'')"

definition plain_base :: "string \<Rightarrow> bool" where
  "plain_base base =
     (9 < length base \<and> take 8 base = ''https://'' \<and> last base = CHR ''/''
      \<and> list_all host_char (butlast (drop 8 base)))"

definition urljoin :: "platform \<Rightarrow> string \<Rightarrow> string \<Rightarrow> error + string" where
  "urljoin P base rel =
     (if plain_base base \<and> rel \<noteq> [] \<and> list_all is_letter rel then Inr (base @ rel)
      else lib_urljoin P base rel)"

definition str_json :: "platform \<Rightarrow> json \<Rightarrow> string" where
  "str_json P j = (case j of JStr s \<Rightarrow> s | _ \<Rightarrow> repr_json P j)"

definition str_bool :: "bool \<Rightarrow> string" where
  "str_bool b = (if b then ''True'' else ''False'')"

text \<open>The URL of \<open>get_account_details\<close>: \<open>urljoin\<close> of the API host's base with the
  template \<^verbatim>\<open>getAccountDetails?token={token}&allDetails={allDetails}\<close>, which joins
  them end to end, then \<open>format\<close> with the token and \<open>all_details\<close>.\<close>

definition account_details_url :: "string \<Rightarrow> bool \<Rightarrow> string" where
  "account_details_url tok all_details =
     ''https://api.gofile.io/getAccountDetails?token='' @ tok
       @ ''&allDetails='' @ str_bool all_details"

definition server :: "platform \<Rightarrow> json io" where
  "server P calls =
     (case urljoin P (API_format ''api'') ''getServer'' of
        Inl e \<Rightarrow> (Inl e, calls)
      | Inr joined \<Rightarrow>
          (case send P (Request GET joined None) calls of
             (Inl e, calls') \<Rightarrow> (Inl e, calls')
           | (Inr response, calls') \<Rightarrow>
               (case parse_json response of
                  Inl e \<Rightarrow> (Inl e, calls')
                | Inr data \<Rightarrow> (subscript data ''server'', calls'))))"

text \<open>The keyword arguments \<open>upload\<close> hands to \<open>serialize\<close>, in the order it writes them.\<close>

definition upload_kwargs ::
  "string \<Rightarrow> string \<Rightarrow> string \<Rightarrow> string \<Rightarrow> string \<Rightarrow> string \<Rightarrow> (string \<times> string) list" where
  "upload_kwargs file description password tags expire folder_id =
     [(''file'', file), (''description'', description), (''password'', password),
      (''tags'', tags), (''expire'', expire), (''folder_id'', folder_id)]"

definition upload ::
  "platform \<Rightarrow> gofile \<Rightarrow> string \<Rightarrow> string \<Rightarrow> string \<Rightarrow> string \<Rightarrow> string \<Rightarrow> string \<Rightarrow> json io" where
  "upload P self file description password tags expire folder_id calls =
     (if \<not> isfile P file then (Inl (ValueError (Some ''Only file supported'')), calls)
      else if password \<noteq> [] \<and> length password < 4 then
        (Inl (ValueError (Some ''password is too short (min len 4)'')), calls)
      else
        (case serialize P (upload_kwargs file description password tags expire folder_id) of
           Inl e \<Rightarrow> (Inl e, calls)
         | Inr data0 \<Rightarrow>
             (let data1 = map (\<lambda>(k, v). (k, Text v)) data0;
                  data2 = (if no_token self then data1
                           else AList.update ''token'' (Text (the (token self))) data1)
              in case open_rb P file of
                   Inl e \<Rightarrow> (Inl e, calls)
                 | Inr file_obj \<Rightarrow>
                     (let data3 = AList.update ''file'' file_obj data2
                      in case server P calls of
                           (Inl e, calls') \<Rightarrow> (Inl e, calls')
                         | (Inr srv, calls') \<Rightarrow>
                             (case urljoin P (API_format (str_json P srv)) ''uploadFile'' of
                                Inl e \<Rightarrow> (Inl e, calls')
                              | Inr joined \<Rightarrow>
                                  (case send P (Request POST joined (Some data3)) calls' of
                                     (Inl e, calls'') \<Rightarrow> (Inl e, calls'')
                                   | (Inr response, calls'') \<Rightarrow>
                                       (parse_json response, calls'')))))))"

definition get_account_details :: "platform \<Rightarrow> gofile \<Rightarrow> bool \<Rightarrow> json io" where
  "get_account_details P self all_details calls =
     (if no_token self then (Inl (NotAuthenticated ''You must provide token.''), calls)
      else
        (let url = account_details_url (the (token self)) all_details
         in case send P (Request GET url None) calls of
              (Inl e, calls') \<Rightarrow> (Inl e, calls')
            | (Inr response, calls') \<Rightarrow> (parse_json response, calls')))"

definition delete_content :: "platform \<Rightarrow> gofile \<Rightarrow> string \<Rightarrow> json io" where
  "delete_content P self content_id calls =
     (if no_token self then (Inl (NotAuthenticated ''You must provide token.''), calls)
      else
        (let data = [(''contentId'', Text content_id), (''token'', Text (the (token self)))]
         in case urljoin P (API_format ''api'') ''deleteContent'' of
              Inl e \<Rightarrow> (Inl e, calls)
            | Inr joined \<Rightarrow>
                (case send P (Request DELETE joined (Some data)) calls of
                   (Inl e, calls') \<Rightarrow> (Inl e, calls')
                 | (Inr response, calls') \<Rightarrow> (parse_json response, calls'))))"

definition set_folder_options :: "platform \<Rightarrow> gofile \<Rightarrow> string \<Rightarrow> string \<Rightarrow> string \<Rightarrow> json io" where
  "set_folder_options P self folder_id option val calls =
     (if no_token self then (Inl (NotAuthenticated ''You must provide token.''), calls)
      else
        (let data = [(''token'', Text (the (token self))),
                     (''folderId'', Text folder_id),
                     (''option'', Text option),
                     (''value'', Text (if option = ''tags'' then remove_spaces val else val))]
         in case urljoin P (API_format ''api'') ''setFolderOptions'' of
              Inl e \<Rightarrow> (Inl e, calls)
            | Inr joined \<Rightarrow>
                (case send P (Request PUT joined (Some data)) calls of
                   (Inl e, calls') \<Rightarrow> (Inl e, calls')
                 | (Inr response, calls') \<Rightarrow> (parse_json response, calls'))))"

definition create_folder :: "platform \<Rightarrow> gofile \<Rightarrow> string \<Rightarrow> string \<Rightarrow> json io" where
  "create_folder P self parent_folder_id folder_name calls =
     (if no_token self then (Inl (NotAuthenticated ''You must provide token.''), calls)
      else
        (let data = [(''token'', Text (the (token self))),
                     (''folderName'', Text folder_name),
                     (''parentFolderId'', Text parent_folder_id)]
         in case urljoin P (API_format ''api'') ''createFolder'' of
              Inl e \<Rightarrow> (Inl e, calls)
            | Inr joined \<Rightarrow>
                (case send P (Request PUT joined (Some data)) calls of
                   (Inl e, calls') \<Rightarrow> (Inl e, calls')
                 | (Inr response, calls') \<Rightarrow> (parse_json response, calls'))))"

section \<open>Two platforms\<close>

text \<open>A machine whose local time is UTC, and one whose local time is UTC+05:30 all
  year and in every year. On both, \<open>timestamp()\<close> looks at the day before the one it is
  given, which for 0001-01-01 lies in the year 0: there it raises \<open>ValueError\<close>, and on
  every later midnight up to the year 9999 it returns the timestamp. Both have a file
  \<open>a.txt\<close> and nothing else, and a transport that answers the server lookup with
  \<open>store1\<close> and every other request with an empty result; as that server is a plain
  host, \<open>urljoin\<close> never consults the platform there, and \<open>lib_urljoin\<close> is given
  as raising.\<close>

definition demo_net :: "request list \<Rightarrow> request \<Rightarrow> error + json" where
  "demo_net calls req =
     (if meth req = GET
      then Inr (JDict [(''status'', JStr ''ok''), (''data'', JDict [(''server'', JStr ''store1'')])])
      else Inr (JDict [(''status'', JStr ''ok''), (''data'', JDict [])]))"

definition utc_platform :: platform where
  "utc_platform =
     \<lparr> isfile = (\<lambda>p. p = ''a.txt''),
       open_rb = (\<lambda>p. if p = ''a.txt'' then Inr (FileObj p) else Inl OSError),
       local_timestamp = (\<lambda>t. if t < - 62135510400 then Inl (ValueError None) else Inr t),
       repr_json = (\<lambda>j. []),
       lib_urljoin = (\<lambda>base rel. Inl (ValueError None)),
       net = demo_net \<rparr>"


section \<open>Notions used to state the properties\<close>

text \<open>The fields \<open>serialize\<close> copies, the wire value of one of them, the exception a
  non-empty \<open>expire\<close> argument raises (if any), the arguments processed before
  \<open>folder_id\<close>, and the arguments whose \<open>folder_id\<close> is absent or empty.\<close>

definition optional_fields :: "string set" where
  "optional_fields = {''description'', ''password'', ''tags'', ''expire''}"

definition field_value :: "platform \<Rightarrow> string \<Rightarrow> string \<Rightarrow> error + string" where
  "field_value P k v =
     (if k = ''tags'' then Inr (remove_spaces v)
      else if k = ''expire'' then expire_value P v
      else Inr v)"

definition expire_failure :: "platform \<Rightarrow> (string \<times> string) list \<Rightarrow> error option" where
  "expire_failure P kwargs =
     (case map_of kwargs ''expire'' of
        None \<Rightarrow> None
      | Some v \<Rightarrow>
          if v = [] then None
          else (case expire_value P v of Inl e \<Rightarrow> Some e | Inr s \<Rightarrow> None))"

definition before_folder_id :: "(string \<times> string) list \<Rightarrow> (string \<times> string) list" where
  "before_folder_id kwargs = takeWhile (\<lambda>p. fst p \<noteq> ''folder_id'') kwargs"

definition no_folder_id :: "(string \<times> string) list \<Rightarrow> bool" where
  "no_folder_id kwargs = (map_of kwargs ''folder_id'' \<in> {None, Some []})"









section \<open>The loop of serialize\<close>

lemma loop_step:
  assumes "\<not> (k = ''folder_id'' \<and> v \<noteq> [])"
  shows "serialize_loop P data ((k, v) # kw) =
           (if v \<noteq> [] \<and> k \<in> optional_fields
            then (case field_value P k v of
                    Inl e \<Rightarrow> Inl e
                  | Inr s \<Rightarrow> serialize_loop P (AList.update k s data) kw)
            else serialize_loop P data kw)"
  using assms by (simp add: optional_fields_def field_value_def)

lemma no_folder_id_Cons:
  assumes "no_folder_id ((k, v) # kw)" "distinct (map fst ((k, v) # kw))"
  shows "\<not> (k = ''folder_id'' \<and> v \<noteq> [])" "no_folder_id kw"
  using assms by (auto simp: no_folder_id_def map_of_eq_None_iff image_iff)

lemma expire_failure_step:
  assumes "distinct (map fst ((k, v) # kw))"
  shows "expire_failure P ((k, v) # kw) =
           (if v \<noteq> [] \<and> k \<in> optional_fields
            then (case field_value P k v of
                    Inl e \<Rightarrow> Some e
                  | Inr s \<Rightarrow> expire_failure P kw)
            else expire_failure P kw)"
proof (cases "k = ''expire''")
  case True
  with assms have "map_of kw ''expire'' = None"
    by (simp add: map_of_eq_None_iff)
  then have "expire_failure P kw = None"
    by (simp add: expire_failure_def)
  then show ?thesis
    using True by (simp add: expire_failure_def optional_fields_def field_value_def split: sum.splits)
next
  case False
  then show ?thesis
    by (simp add: expire_failure_def optional_fields_def field_value_def)
qed

lemma loop_error_iff:
  assumes "distinct (map fst kw)" "no_folder_id kw"
  shows "serialize_loop P data kw = Inl e \<longleftrightarrow> expire_failure P kw = Some e"
  using assms
proof (induction kw arbitrary: data)
  case Nil
  then show ?case by (simp add: expire_failure_def)
next
  case (Cons p kw)
  obtain k v where p: "p = (k, v)" by (cases p)
  from Cons.prems have nf: "\<not> (k = ''folder_id'' \<and> v \<noteq> [])" and nf': "no_folder_id kw"
    and d: "distinct (map fst ((k, v) # kw))" and d': "distinct (map fst kw)"
    using no_folder_id_Cons[of k v kw] by (simp_all add: p)
  have IH: "serialize_loop P data' kw = Inl e \<longleftrightarrow> expire_failure P kw = Some e" for data'
    using Cons.IH[OF d' nf'] .
  show ?case
    unfolding p loop_step[OF nf] expire_failure_step[OF d]
    by (simp add: IH split: sum.splits)
qed

lemma loop_keys:
  assumes "distinct (map fst kw)" "no_folder_id kw" "serialize_loop P data kw = Inr m"
  shows "fst ` set m = fst ` set data \<union> {k \<in> optional_fields. \<exists>v. (k, v) \<in> set kw \<and> v \<noteq> []}"
  using assms
proof (induction kw arbitrary: data)
  case Nil
  then show ?case by simp
next
  case (Cons p kw)
  obtain k v where p: "p = (k, v)" by (cases p)
  from Cons.prems have nf: "\<not> (k = ''folder_id'' \<and> v \<noteq> [])" and nf': "no_folder_id kw"
    and d': "distinct (map fst kw)"
    using no_folder_id_Cons[of k v kw] by (simp_all add: p)
  note IH = Cons.IH[OF d' nf']
  let ?K = "\<lambda>kw. {k \<in> optional_fields. \<exists>v. (k, v) \<in> set kw \<and> v \<noteq> []}"
  show ?case
  proof (cases "v \<noteq> [] \<and> k \<in> optional_fields")
    case True
    with Cons.prems(3) obtain s where s: "field_value P k v = Inr s"
      and run: "serialize_loop P (AList.update k s data) kw = Inr m"
      unfolding p loop_step[OF nf] by (auto split: sum.splits)
    have "fst ` set m = fst ` set (AList.update k s data) \<union> ?K kw"
      using IH[OF run] .
    also have "\<dots> = fst ` set data \<union> ({k} \<union> ?K kw)"
      by (auto simp: dom_update)
    also have "{k} \<union> ?K kw = ?K (p # kw)"
      using True by (auto simp: p)
    finally show ?thesis .
  next
    case False
    with Cons.prems(3) have run: "serialize_loop P data kw = Inr m"
      unfolding p loop_step[OF nf] by simp
    have "?K (p # kw) = ?K kw"
      using False by (auto simp: p)
    with IH[OF run] show ?thesis by simp
  qed
qed

lemma loop_lookup:
  assumes "distinct (map fst kw)" "no_folder_id kw" "serialize_loop P data kw = Inr m"
  shows "map_of m k =
           (case map_of kw k of
              None \<Rightarrow> map_of data k
            | Some v \<Rightarrow>
                if v \<noteq> [] \<and> k \<in> optional_fields
                then (case field_value P k v of Inl e \<Rightarrow> None | Inr s \<Rightarrow> Some s)
                else map_of data k)"
  using assms
proof (induction kw arbitrary: data)
  case Nil
  then show ?case by simp
next
  case (Cons p kw)
  obtain k0 v0 where p: "p = (k0, v0)" by (cases p)
  from Cons.prems have nf: "\<not> (k0 = ''folder_id'' \<and> v0 \<noteq> [])" and nf': "no_folder_id kw"
    and d': "distinct (map fst kw)" and fresh: "map_of kw k0 = None"
    using no_folder_id_Cons[of k0 v0 kw] by (simp_all add: p map_of_eq_None_iff)
  note IH = Cons.IH[OF d' nf']
  show ?case
  proof (cases "v0 \<noteq> [] \<and> k0 \<in> optional_fields")
    case True
    with Cons.prems(3) obtain s where s: "field_value P k0 v0 = Inr s"
      and run: "serialize_loop P (AList.update k0 s data) kw = Inr m"
      unfolding p loop_step[OF nf] by (auto split: sum.splits)
    show ?thesis
    proof (cases "k = k0")
      case same: True
      then show ?thesis
        using IH[OF run] fresh True s by (simp add: p update_conv')
    next
      case other: False
      then show ?thesis
        using IH[OF run] by (simp add: p update_conv' split: option.splits)
    qed
  next
    case False
    with Cons.prems(3) have run: "serialize_loop P data kw = Inr m"
      unfolding p loop_step[OF nf] by simp
    show ?thesis
    proof (cases "k = k0")
      case same: True
      then show ?thesis
        using IH[OF run] fresh False by (auto simp: p)
    next
      case other: False
      then show ?thesis
        using IH[OF run] by (simp add: p split: option.splits)
    qed
  qed
qed

lemma loop_folder_id:
  assumes "distinct (map fst kw)" "(''folder_id'', v) \<in> set kw" "v \<noteq> []"
  shows "serialize_loop P data kw =
           (case serialize_loop P data (before_folder_id kw) of
              Inl e \<Rightarrow> Inl e
            | Inr m \<Rightarrow> Inr [(''folderId'', v)])"
  using assms
proof (induction kw arbitrary: data)
  case Nil
  then show ?case by simp
next
  case (Cons p kw)
  obtain k0 v0 where p: "p = (k0, v0)" by (cases p)
  show ?case
  proof (cases "k0 = ''folder_id''")
    case True
    with Cons.prems have "v0 = v" by (auto simp: p image_iff)
    with True Cons.prems(3) show ?thesis by (simp add: p before_folder_id_def)
  next
    case False
    with Cons.prems have mem: "(''folder_id'', v) \<in> set kw" and d': "distinct (map fst kw)"
      by (auto simp: p)
    have IH: "serialize_loop P data' kw =
           (case serialize_loop P data' (before_folder_id kw) of
              Inl e \<Rightarrow> Inl e
            | Inr m \<Rightarrow> Inr [(''folderId'', v)])" for data'
      using Cons.IH[OF d' mem Cons.prems(3)] .
    from False have nf: "\<not> (k0 = ''folder_id'' \<and> v0 \<noteq> [])" by simp
    have b: "before_folder_id (p # kw) = (k0, v0) # before_folder_id kw"
      using False by (simp add: p before_folder_id_def)
    show ?thesis
      unfolding b unfolding p loop_step[OF nf]
      by (simp add: IH split: sum.splits)
  qed
qed

lemma before_folder_id_props:
  assumes "distinct (map fst kw)"
  shows "distinct (map fst (before_folder_id kw))" "no_folder_id (before_folder_id kw)"
proof -
  have "before_folder_id kw = takeWhile (\<lambda>p. fst p \<noteq> ''folder_id'') kw"
    by (simp add: before_folder_id_def)
  show "distinct (map fst (before_folder_id kw))"
    using assms unfolding before_folder_id_def
    by (induction kw) (auto dest: set_takeWhileD)
  have "''folder_id'' \<notin> fst ` set (before_folder_id kw)"
    unfolding before_folder_id_def by (auto dest: set_takeWhileD)
  then show "no_folder_id (before_folder_id kw)"
    by (simp add: no_folder_id_def map_of_eq_None_iff)
qed

lemma upload_kwargs_wf:
  "distinct (map fst (upload_kwargs file description password tags expire folder_id))"
  "no_folder_id (upload_kwargs file description password tags expire []) "
  by (simp_all add: upload_kwargs_def no_folder_id_def)

lemma upload_kwargs_expire_failure:
  "expire_failure P (upload_kwargs file description password tags expire folder_id) = Some e
     \<longleftrightarrow> expire \<noteq> [] \<and> expire_value P expire = Inl e"
  by (simp add: upload_kwargs_def expire_failure_def split: sum.splits)

lemma serialize_lookup:
  assumes "distinct (map fst kwargs)" and "no_folder_id kwargs"
    and "(k, v) \<in> set kwargs" and "v \<noteq> []" and "k \<in> optional_fields"
  shows "(case serialize P kwargs of
            Inr m \<Rightarrow> field_value P k v = Inr (the (map_of m k)) \<and> map_of m k \<noteq> None
          | Inl e \<Rightarrow> expire_failure P kwargs = Some e)"
proof (cases "serialize P kwargs")
  case (Inl e)
  then show ?thesis
    using loop_error_iff[OF assms(1,2), of P "[]" e] by (simp add: serialize_def)
next
  case (Inr m)
  then have run: "serialize_loop P [] kwargs = Inr m"
    by (simp add: serialize_def)
  have look: "map_of kwargs k = Some v"
    using assms(1,3) by simp
  have "map_of m k = (case field_value P k v of Inl e \<Rightarrow> None | Inr s \<Rightarrow> Some s)"
    using loop_lookup[OF assms(1,2) run, of k] look assms(4,5) by simp
  moreover have "field_value P k v \<noteq> Inl e" for e
  proof
    assume bad: "field_value P k v = Inl e"
    then have "k = ''expire''" and "expire_value P v = Inl e"
      by (auto simp: field_value_def split: if_splits)
    with look assms(4) have "expire_failure P kwargs = Some e"
      by (simp add: expire_failure_def)
    with loop_error_iff[OF assms(1,2), of P "[]" e] run show False by simp
  qed
  ultimately show ?thesis
    using Inr by (cases "field_value P k v") auto
qed

lemma serialize_upload_password:
  assumes "password \<noteq> []"
  shows "(case serialize P (upload_kwargs file description password tags expire []) of
            Inr m \<Rightarrow> map_of m ''password'' = Some password
          | Inl e \<Rightarrow> expire \<noteq> [] \<and> expire_value P expire = Inl e)"
proof -
  let ?kw = "upload_kwargs file description password tags expire []"
  have "(''password'', password) \<in> set ?kw" and "''password'' \<in> optional_fields"
    by (simp_all add: upload_kwargs_def optional_fields_def)
  from serialize_lookup[where P = P, OF upload_kwargs_wf this(1) assms this(2)]
  show ?thesis
    by (auto simp: field_value_def upload_kwargs_expire_failure split: sum.splits)
qed

lemma serialize_upload_folder_id:
  assumes "folder_id \<noteq> []"
  shows "serialize P (upload_kwargs file description password tags expire folder_id) =
            (if expire = [] then Inr [(''folderId'', folder_id)]
             else (case expire_value P expire of
                     Inl e \<Rightarrow> Inl e
                   | Inr s \<Rightarrow> Inr [(''folderId'', folder_id)]))"
  using assms by (simp add: serialize_def upload_kwargs_def split: sum.splits)

section \<open>Decimal strings\<close>


lemma digit_char_values:
  "map digit_char [0..9] = ''0123456789''"
  by code_simp

lemma digit_char_is_digit:
  assumes "0 \<le> n" and "n < 10"
  shows "is_digit (digit_char n)"
proof -
  from assms have "n \<in> set [0..9]" by simp
  then have "digit_char n \<in> set (map digit_char [0..9])"
    by (simp del: upto.simps)
  then show ?thesis
    by (simp only: digit_char_values is_digit_def)
qed

lemma decimal_digits_digits:
  "0 \<le> n \<Longrightarrow> list_all is_digit (decimal_digits n)"
proof (induction n rule: decimal_digits.induct)
  case (1 n)
  show ?case
  proof (cases "n < 10")
    case True
    with 1(2) show ?thesis
      by (simp add: decimal_digits.simps[of n] digit_char_is_digit)
  next
    case False
    with 1(2) have "0 \<le> n div 10" by simp
    with 1(1) False have "list_all is_digit (decimal_digits (n div 10))" by simp
    moreover have "is_digit (digit_char (n mod 10))"
      by (rule digit_char_is_digit) simp_all
    ultimately show ?thesis
      using False by (simp add: decimal_digits.simps[of n])
  qed
qed


lemma str_int_chars: "set (str_int i) \<subseteq> set ''-0123456789''"
proof -
  have "set (decimal_digits n) \<subseteq> set ''0123456789''" if "0 \<le> n" for n
    using decimal_digits_digits[OF that]
    unfolding list_all_iff is_digit_def by blast
  from this[of i] this[of "- i"] show ?thesis
    by (auto simp: str_int_def)
qed
















section \<open>The calendar\<close>















section \<open>URLs of the API host and of a plain upload server\<close>

lemma urljoin_api:
  "urljoin P (API_format ''api'') ''getServer'' = Inr ''https://api.gofile.io/getServer''"
  "urljoin P (API_format ''api'') ''deleteContent'' = Inr ''https://api.gofile.io/deleteContent''"
  "urljoin P (API_format ''api'') ''setFolderOptions'' = Inr ''https://api.gofile.io/setFolderOptions''"
  "urljoin P (API_format ''api'') ''createFolder'' = Inr ''https://api.gofile.io/createFolder''"
  "urljoin P (API_format ''store1'') ''uploadFile'' = Inr ''https://store1.gofile.io/uploadFile''"
  by (simp_all add: urljoin_def plain_base_def API_format_def host_char_def is_letter_def is_digit_def)

section \<open>Evaluations used below\<close>

lemma expire_value_utc_2021_12_25:
  "expire_value utc_platform ''2021-12-25'' = Inr ''1640390400''"
  by code_simp


lemma expire_value_garbage:
  "expire_value P ''garbage'' = Inl (ValueError None)"
  by (simp add: expire_value_def py_int_def strip_def is_space_def is_digit_def)


lemma expire_value_overflow:
  "expire_value utc_platform ''2147483648-1-1'' = Inl OverflowError"
  by code_simp





section \<open>Properties of serialize\<close>

text \<open>C1, as the code has it. When \<open>folder_id\<close> is supplied non-empty (and the keyword
  arguments have distinct names, as Python's always do), \<open>serialize\<close> returns exactly
  \<open>{folderId: folder_id}\<close>, whatever else was supplied before or after it, unless a
  non-empty \<open>expire\<close> processed before \<open>folder_id\<close> fails to convert: then
  \<open>serialize\<close> raises the exception of that conversion, whichever it is, and returns
  no mapping.\<close>

theorem serialize_folder_id_override:
  assumes "distinct (map fst kwargs)" and "(''folder_id'', v) \<in> set kwargs" and "v \<noteq> []"
  shows "serialize P kwargs =
           (case expire_failure P (before_folder_id kwargs) of
              Some e \<Rightarrow> Inl e
            | None \<Rightarrow> Inr [(''folderId'', v)])"
proof -
  note pre = before_folder_id_props[OF assms(1)]
  have err: "serialize_loop P [] (before_folder_id kwargs) = Inl e
               \<longleftrightarrow> expire_failure P (before_folder_id kwargs) = Some e" for e
    using loop_error_iff[OF pre] .
  show ?thesis
  proof (cases "expire_failure P (before_folder_id kwargs)")
    case None
    with err obtain m where "serialize_loop P [] (before_folder_id kwargs) = Inr m"
      by (cases "serialize_loop P [] (before_folder_id kwargs)") auto
    with None show ?thesis
      unfolding serialize_def loop_folder_id[OF assms] by simp
  next
    case (Some e)
    with err have "serialize_loop P [] (before_folder_id kwargs) = Inl e" by simp
    with Some show ?thesis
      unfolding serialize_def loop_folder_id[OF assms] by simp
  qed
qed

text \<open>The override at work: a description and a valid expiry before \<open>folder_id\<close> and tags
  after it all vanish from the result. An expiry whose year does not fit a C int, placed
  before \<open>folder_id\<close>, makes \<open>serialize\<close> raise \<open>OverflowError\<close>; placed after it, it is
  never looked at.\<close>

theorem serialize_folder_id_override_witness:
  "serialize utc_platform
     [(''description'', ''d''), (''expire'', ''2021-12-25''), (''folder_id'', ''abc''), (''tags'', ''t'')]
     = Inr [(''folderId'', ''abc'')]
   \<and> serialize utc_platform [(''expire'', ''2147483648-1-1''), (''folder_id'', ''abc'')]
     = Inl OverflowError
   \<and> serialize utc_platform [(''folder_id'', ''abc''), (''expire'', ''2147483648-1-1'')]
     = Inr [(''folderId'', ''abc'')]"
  using serialize_folder_id_override[of
      "[(''description'', ''d''), (''expire'', ''2021-12-25''), (''folder_id'', ''abc''), (''tags'', ''t'')]"
      "''abc''" utc_platform]
    serialize_folder_id_override[of "[(''expire'', ''2147483648-1-1''), (''folder_id'', ''abc'')]"
      "''abc''" utc_platform]
    serialize_folder_id_override[of "[(''folder_id'', ''abc''), (''expire'', ''2147483648-1-1'')]"
      "''abc''" utc_platform]
  by (simp add: before_folder_id_def expire_failure_def expire_value_utc_2021_12_25
      expire_value_overflow)

text \<open>C1 as stated fails on the arguments \<open>upload\<close> passes, where \<open>expire\<close> comes before
  \<open>folder_id\<close>: with a non-empty \<open>folder_id\<close> and an \<open>expire\<close> that is no date,
  \<open>serialize\<close> raises \<open>ValueError\<close> instead of returning \<open>{folderId: folder_id}\<close>.\<close>

theorem serialize_folder_id_counterexample:
  "serialize utc_platform (upload_kwargs ''a.txt'' [] [] [] ''garbage'' ''x'') = Inl (ValueError None)
   \<and> serialize utc_platform (upload_kwargs ''a.txt'' [] [] [] ''garbage'' ''x'') \<noteq> Inr [(''folderId'', ''x'')]"
  by (simp add: serialize_def upload_kwargs_def expire_value_garbage)

text \<open>C3, as the code has it. With \<open>folder_id\<close> empty or absent, \<open>serialize\<close> raises
  exactly when a non-empty \<open>expire\<close> argument fails to convert, with the exception of
  that conversion; in every other case it returns a mapping whose keys are exactly the
  optional fields (description, password, tags, expire) supplied non-empty, the empty
  mapping exactly when none is.\<close>

theorem serialize_keys_iff_truthy:
  assumes "distinct (map fst kwargs)" and "no_folder_id kwargs"
  shows "(case serialize P kwargs of
            Inr m \<Rightarrow>
              expire_failure P kwargs = None
              \<and> fst ` set m = {k \<in> optional_fields. \<exists>v. (k, v) \<in> set kwargs \<and> v \<noteq> []}
              \<and> (m = []) = ({k \<in> optional_fields. \<exists>v. (k, v) \<in> set kwargs \<and> v \<noteq> []} = {})
          | Inl e \<Rightarrow> expire_failure P kwargs = Some e)"
proof (cases "serialize P kwargs")
  case (Inl e)
  then show ?thesis
    using loop_error_iff[OF assms, of P "[]" e] by (simp add: serialize_def)
next
  case (Inr m)
  then have run: "serialize_loop P [] kwargs = Inr m"
    by (simp add: serialize_def)
  have "expire_failure P kwargs = None"
  proof (cases "expire_failure P kwargs")
    case (Some e)
    then show ?thesis using loop_error_iff[OF assms, of P "[]" e] run by simp
  qed simp
  moreover have keys: "fst ` set m = {k \<in> optional_fields. \<exists>v. (k, v) \<in> set kwargs \<and> v \<noteq> []}"
    using loop_keys[OF assms run] by simp
  moreover have "(m = []) = (fst ` set m = {})" by simp
  ultimately show ?thesis
    using Inr by simp
qed

text \<open>Three of the four optional fields supplied, and none supplied.\<close>

theorem serialize_keys_iff_truthy_witness:
  "(case serialize utc_platform (upload_kwargs ''a.txt'' ''d'' [] ''a, b'' ''2021-12-25'' []) of
      Inr m \<Rightarrow> fst ` set m = {''description'', ''tags'', ''expire''} \<and> m \<noteq> []
    | Inl e \<Rightarrow> False)
   \<and> serialize utc_platform (upload_kwargs ''a.txt'' [] [] [] [] []) = Inr []"
  using serialize_keys_iff_truthy[of "upload_kwargs ''a.txt'' ''d'' [] ''a, b'' ''2021-12-25'' []" utc_platform]
    serialize_keys_iff_truthy[of "upload_kwargs ''a.txt'' [] [] [] [] []" utc_platform]
  by (simp add: upload_kwargs_def serialize_def expire_value_utc_2021_12_25 remove_spaces_def)

text \<open>C3 as stated fails when the \<open>expire\<close> supplied is no date: the field is non-empty,
  yet \<open>serialize\<close> raises \<open>ValueError\<close> and returns no mapping, so none that holds the
  keys of the non-empty fields.\<close>

theorem serialize_keys_counterexample:
  "serialize utc_platform (upload_kwargs ''a.txt'' ''d'' [] [] ''garbage'' []) = Inl (ValueError None)
   \<and> (''expire'', ''garbage'') \<in> set (upload_kwargs ''a.txt'' ''d'' [] [] ''garbage'' [])
   \<and> no_folder_id (upload_kwargs ''a.txt'' ''d'' [] [] ''garbage'' [])"
  by (simp add: serialize_def upload_kwargs_def expire_value_garbage no_folder_id_def)




text \<open>C7. \<open>serialize\<close> maps the tags \<open>a, b, c\<close> to \<open>a,b,c\<close>. For every non-empty tags
  argument \<open>v\<close>, the value used is \<open>v\<close> with its spaces taken out and every other
  character kept in place: that is what \<open>serialize\<close> returns under \<open>tags\<close> when called
  with the tags alone; it is what the loop stores under \<open>tags\<close>, whatever the mapping
  built so far and the arguments still to come; it is the value under \<open>tags\<close> of the
  mapping returned for any arguments without \<open>folder_id\<close> whose \<open>expire\<close> converts;
  and it is the \<open>value\<close> that \<open>set_folder_options\<close> with option \<open>tags\<close>, on a client
  holding a token, puts in the body of its request.\<close>

theorem tags_spaces_removed:
  "serialize P [(''tags'', ''a, b, c'')] = Inr [(''tags'', ''a,b,c'')]
   \<and> (v \<noteq> [] \<longrightarrow> serialize P [(''tags'', v)] = Inr [(''tags'', filter (\<lambda>c. c \<noteq> CHR '' '') v)])
   \<and> (v \<noteq> [] \<longrightarrow> serialize_loop P data ((''tags'', v) # rest) =
                    serialize_loop P (AList.update ''tags'' (filter (\<lambda>c. c \<noteq> CHR '' '') v) data) rest)
   \<and> (distinct (map fst kwargs) \<and> no_folder_id kwargs \<and> (''tags'', v) \<in> set kwargs \<and> v \<noteq> []
        \<and> expire_failure P kwargs = None
        \<longrightarrow> (\<exists>m. serialize P kwargs = Inr m
                 \<and> map_of m ''tags'' = Some (filter (\<lambda>c. c \<noteq> CHR '' '') v)))
   \<and> (\<not> no_token self
        \<longrightarrow> set_folder_options P self folder_id ''tags'' v calls =
              (let req = Request PUT ''https://api.gofile.io/setFolderOptions''
                           (Some [(''token'', Text (the (token self))),
                                  (''folderId'', Text folder_id),
                                  (''option'', Text ''tags''),
                                  (''value'', Text (filter (\<lambda>c. c \<noteq> CHR '' '') v))])
               in (case net P calls req of Inl e \<Rightarrow> Inl e | Inr response \<Rightarrow> parse_json response,
                   calls @ [req])))"
proof (intro conjI impI)
  show "serialize P [(''tags'', ''a, b, c'')] = Inr [(''tags'', ''a,b,c'')]"
    by (simp add: serialize_def remove_spaces_def)
next
  assume "v \<noteq> []"
  then show "serialize P [(''tags'', v)] = Inr [(''tags'', filter (\<lambda>c. c \<noteq> CHR '' '') v)]"
    by (simp add: serialize_def remove_spaces_def)
next
  assume "v \<noteq> []"
  then show "serialize_loop P data ((''tags'', v) # rest) =
               serialize_loop P (AList.update ''tags'' (filter (\<lambda>c. c \<noteq> CHR '' '') v) data) rest"
    by (simp add: remove_spaces_def)
next
  assume a: "distinct (map fst kwargs) \<and> no_folder_id kwargs \<and> (''tags'', v) \<in> set kwargs \<and> v \<noteq> []
        \<and> expire_failure P kwargs = None"
  have "''tags'' \<in> optional_fields" by (simp add: optional_fields_def)
  with a have "(case serialize P kwargs of
            Inr m \<Rightarrow> field_value P ''tags'' v = Inr (the (map_of m ''tags'')) \<and> map_of m ''tags'' \<noteq> None
          | Inl e \<Rightarrow> expire_failure P kwargs = Some e)"
    using serialize_lookup[of kwargs "''tags''" v P] by simp
  with a show "\<exists>m. serialize P kwargs = Inr m
                 \<and> map_of m ''tags'' = Some (filter (\<lambda>c. c \<noteq> CHR '' '') v)"
    by (cases "serialize P kwargs") (auto simp: field_value_def remove_spaces_def)
next
  assume "\<not> no_token self"
  then show "set_folder_options P self folder_id ''tags'' v calls =
              (let req = Request PUT ''https://api.gofile.io/setFolderOptions''
                           (Some [(''token'', Text (the (token self))),
                                  (''folderId'', Text folder_id),
                                  (''option'', Text ''tags''),
                                  (''value'', Text (filter (\<lambda>c. c \<noteq> CHR '' '') v))])
               in (case net P calls req of Inl e \<Rightarrow> Inl e | Inr response \<Rightarrow> parse_json response,
                   calls @ [req]))"
    by (simp add: set_folder_options_def urljoin_api send_def remove_spaces_def Let_def
        split: sum.splits)
qed

text \<open>Tags with spaces given to \<open>serialize\<close> alone and in the arguments of an upload, and
  to \<open>set_folder_options\<close>.\<close>

theorem tags_spaces_removed_witness:
  "serialize utc_platform [(''tags'', ''x y, z'')] = Inr [(''tags'', ''xy,z'')]
   \<and> serialize utc_platform (upload_kwargs ''a.txt'' ''d'' [] ''x y, z'' [] []) =
     Inr [(''description'', ''d''), (''tags'', ''xy,z'')]
   \<and> set_folder_options utc_platform \<lparr>token = Some ''t''\<rparr> ''f'' ''tags'' ''x y, z'' [] =
     (Inr (JDict []),
      [Request PUT ''https://api.gofile.io/setFolderOptions''
         (Some [(''token'', Text ''t''), (''folderId'', Text ''f''),
                (''option'', Text ''tags''), (''value'', Text ''xy,z'')])])"
  using tags_spaces_removed[of utc_platform "''x y, z''" "[]" "[]"
      "upload_kwargs ''a.txt'' ''d'' [] ''x y, z'' [] []" "\<lparr>token = Some ''t''\<rparr>" "''f''" "[]"]
  by (simp add: upload_kwargs_def serialize_def remove_spaces_def no_token_def utc_platform_def
      demo_net_def parse_json_def no_folder_id_def expire_failure_def)

section \<open>Properties of parse_json\<close>

text \<open>C2. An envelope whose \<open>status\<close> is the string \<open>ok\<close> yields the value under
  \<open>data\<close> unchanged; an envelope whose \<open>status\<close> is any other string raises
  \<open>ServerError\<close> carrying that string.\<close>

theorem parse_json_ok_or_server_error:
  "(map_of envelope ''status'' = Some (JStr ''ok'') \<and> map_of envelope ''data'' = Some d
      \<longrightarrow> parse_json (JDict envelope) = Inr d)
   \<and> (map_of envelope ''status'' = Some (JStr s) \<and> s \<noteq> ''ok''
      \<longrightarrow> parse_json (JDict envelope) = Inl (ServerError (JStr s)))"
  by (simp add: parse_json_def)

text \<open>The two envelopes of the specification's example.\<close>

theorem parse_json_ok_or_server_error_witness:
  "parse_json (JDict [(''status'', JStr ''ok''), (''data'', JDict [(''x'', JInt 1)])])
     = Inr (JDict [(''x'', JInt 1)])
   \<and> parse_json (JDict [(''status'', JStr ''error-auth'')]) = Inl (ServerError (JStr ''error-auth''))"
  using parse_json_ok_or_server_error[of "[(''status'', JStr ''ok''), (''data'', JDict [(''x'', JInt 1)])]"
      "JDict [(''x'', JInt 1)]" "''ok''"]
    parse_json_ok_or_server_error[of "[(''status'', JStr ''error-auth'')]" JNull "''error-auth''"]
  by simp

text \<open>C10. An envelope without the key \<open>status\<close>, and an envelope with \<open>status\<close> equal to
  \<open>ok\<close> but without the key \<open>data\<close>, make \<open>parse_json\<close> fail with \<open>KeyError\<close>:
  it neither returns a value nor raises \<open>ServerError\<close>.\<close>

theorem parse_json_key_error:
  "(map_of envelope ''status'' = None \<longrightarrow> parse_json (JDict envelope) = Inl (KeyError ''status''))
   \<and> (map_of envelope ''status'' = Some (JStr ''ok'') \<and> map_of envelope ''data'' = None
      \<longrightarrow> parse_json (JDict envelope) = Inl (KeyError ''data''))"
  by (simp add: parse_json_def)

text \<open>One envelope of each kind.\<close>

theorem parse_json_key_error_witness:
  "parse_json (JDict [(''data'', JDict [])]) = Inl (KeyError ''status'')
   \<and> parse_json (JDict [(''status'', JStr ''ok'')]) = Inl (KeyError ''data'')"
  using parse_json_key_error[of "[(''data'', JDict [])]"]
    parse_json_key_error[of "[(''status'', JStr ''ok'')]"]
  by simp

section \<open>Properties of the operations\<close>

text \<open>C5. On a client that holds no token (\<open>None\<close> or the empty string) each of
  \<open>get_account_details\<close>, \<open>delete_content\<close>, \<open>set_folder_options\<close> and
  \<open>create_folder\<close> raises \<open>NotAuthenticated\<close> and leaves the list of issued requests as
  it was: no request is sent.\<close>

theorem no_token_no_request:
  assumes "no_token self"
  shows "get_account_details P self all_details calls
           = (Inl (NotAuthenticated ''You must provide token.''), calls)
         \<and> delete_content P self content_id calls
           = (Inl (NotAuthenticated ''You must provide token.''), calls)
         \<and> set_folder_options P self folder_id option val calls
           = (Inl (NotAuthenticated ''You must provide token.''), calls)
         \<and> create_folder P self parent_folder_id folder_name calls
           = (Inl (NotAuthenticated ''You must provide token.''), calls)"
  using assms
  by (simp add: get_account_details_def delete_content_def set_folder_options_def create_folder_def)

text \<open>Both ways of holding no token.\<close>

theorem no_token_no_request_witness:
  "get_account_details utc_platform \<lparr>token = None\<rparr> True []
     = (Inl (NotAuthenticated ''You must provide token.''), [])
   \<and> delete_content utc_platform \<lparr>token = Some []\<rparr> ''c'' []
     = (Inl (NotAuthenticated ''You must provide token.''), [])
   \<and> set_folder_options utc_platform \<lparr>token = None\<rparr> ''f'' ''tags'' ''a, b'' []
     = (Inl (NotAuthenticated ''You must provide token.''), [])
   \<and> create_folder utc_platform \<lparr>token = Some []\<rparr> ''p'' ''n'' []
     = (Inl (NotAuthenticated ''You must provide token.''), [])"
  using no_token_no_request[of "\<lparr>token = None\<rparr>" utc_platform True "[]" "''c''" "''f''" "''tags''" "''a, b''" "''p''" "''n''"]
    no_token_no_request[of "\<lparr>token = Some []\<rparr>" utc_platform True "[]" "''c''" "''f''" "''tags''" "''a, b''" "''p''" "''n''"]
  by (simp add: no_token_def)

text \<open>C8. When the file argument names no existing file, \<open>upload\<close> raises \<open>ValueError\<close>
  and the list of issued requests is unchanged.\<close>

theorem upload_missing_file:
  assumes "\<not> isfile P file"
  shows "upload P self file description password tags expire folder_id calls
           = (Inl (ValueError (Some ''Only file supported'')), calls)"
  using assms by (simp add: upload_def)

text \<open>A path that does not exist on the example platform.\<close>

theorem upload_missing_file_witness:
  "upload utc_platform \<lparr>token = Some ''tok''\<rparr> ''b.txt'' ''d'' ''abcd'' ''t'' ''2021-12-25'' [] []
     = (Inl (ValueError (Some ''Only file supported'')), [])"
  using upload_missing_file[of utc_platform "''b.txt''" "\<lparr>token = Some ''tok''\<rparr>" "''d''" "''abcd''" "''t''"
      "''2021-12-25''" "[]" "[]"]
  by (simp add: utc_platform_def)

text \<open>C9. For an existing file, a non-empty \<open>folder_id\<close> and a password of one to three
  characters, \<open>upload\<close> raises the password's \<open>ValueError\<close> without sending a request,
  although \<open>serialize\<close> on the same arguments would have dropped the password: it
  returns \<open>{folderId: folder_id}\<close> alone, or raises because \<open>expire\<close> does not
  convert.\<close>

theorem upload_short_password_with_folder_id:
  assumes "isfile P file" and "folder_id \<noteq> []" and "password \<noteq> []" and "length password < 4"
  shows "upload P self file description password tags expire folder_id calls
           = (Inl (ValueError (Some ''password is too short (min len 4)'')), calls)
         \<and> (case serialize P (upload_kwargs file description password tags expire folder_id) of
               Inr data \<Rightarrow> data = [(''folderId'', folder_id)]
             | Inl e \<Rightarrow> expire \<noteq> [] \<and> expire_value P expire = Inl e)"
  using assms by (simp add: upload_def serialize_def upload_kwargs_def split: sum.splits)

text \<open>A three-character password together with a folder id.\<close>

theorem upload_short_password_with_folder_id_witness:
  "upload utc_platform \<lparr>token = Some ''tok''\<rparr> ''a.txt'' [] ''abc'' [] [] ''fid'' []
     = (Inl (ValueError (Some ''password is too short (min len 4)'')), [])
   \<and> serialize utc_platform (upload_kwargs ''a.txt'' [] ''abc'' [] [] ''fid'') = Inr [(''folderId'', ''fid'')]"
  using upload_short_password_with_folder_id[of utc_platform "''a.txt''" "''fid''" "''abc''"
      "\<lparr>token = Some ''tok''\<rparr>" "[]" "[]" "[]" "[]"]
  by (simp add: utc_platform_def serialize_def upload_kwargs_def)

text \<open>C6, as the code has it. A password of one to three characters makes \<open>upload\<close> raise
  \<open>ValueError\<close> with no request sent (the message is the password's when the file exists,
  the file's otherwise). A password of four or more characters passes that test. If then a
  non-empty \<open>expire\<close> fails to convert, \<open>serialize\<close> returns no mapping and \<open>upload\<close>
  raises the exception of the conversion with no request sent. Otherwise, when no
  \<open>folder_id\<close> is supplied the password is stored unchanged under \<open>password\<close> in the
  mapping \<open>serialize\<close> returns and in the body posted to the upload server; and when a
  \<open>folder_id\<close> is supplied the mapping is \<open>{folderId: folder_id}\<close> alone and the body
  posted holds \<open>folderId\<close>, the token if the client has one, and the file, with no
  \<open>password\<close> key.\<close>

theorem upload_password_rule:
  "(password \<noteq> [] \<and> length password < 4
      \<longrightarrow> upload P self file description password tags expire folder_id calls =
            (Inl (ValueError (Some (if isfile P file then ''password is too short (min len 4)''
                                    else ''Only file supported''))), calls))
   \<and> (4 \<le> length password \<and> folder_id = []
      \<longrightarrow> (case serialize P (upload_kwargs file description password tags expire folder_id) of
             Inr data \<Rightarrow> map_of data ''password'' = Some password
           | Inl e \<Rightarrow> expire \<noteq> [] \<and> expire_value P expire = Inl e))
   \<and> (folder_id \<noteq> []
      \<longrightarrow> serialize P (upload_kwargs file description password tags expire folder_id) =
            (if expire = [] then Inr [(''folderId'', folder_id)]
             else (case expire_value P expire of
                     Inl e \<Rightarrow> Inl e
                   | Inr s \<Rightarrow> Inr [(''folderId'', folder_id)])))
   \<and> (4 \<le> length password \<and> isfile P file \<and> expire \<noteq> [] \<and> expire_value P expire = Inl e
      \<longrightarrow> upload P self file description password tags expire folder_id calls = (Inl e, calls))
   \<and> (4 \<le> length password \<and> isfile P file
        \<and> (expire = [] \<or> expire_value P expire = Inr ts)
        \<and> open_rb P file = Inr file_obj \<and> server P calls = (Inr srv, calls')
        \<and> urljoin P (API_format (str_json P srv)) ''uploadFile'' = Inr target
      \<longrightarrow> (\<exists>data. snd (upload P self file description password tags expire folder_id calls) =
                    calls' @ [Request POST target (Some data)]
                  \<and> map_of data ''password'' = (if folder_id = [] then Some (Text password) else None)
                  \<and> (folder_id \<noteq> [] \<longrightarrow>
                        data = [(''folderId'', Text folder_id)]
                                 @ (if no_token self then [] else [(''token'', Text (the (token self)))])
                                 @ [(''file'', file_obj)])))"
proof (intro conjI impI)
  assume "password \<noteq> [] \<and> length password < 4"
  then show "upload P self file description password tags expire folder_id calls =
            (Inl (ValueError (Some (if isfile P file then ''password is too short (min len 4)''
                                    else ''Only file supported''))), calls)"
    by (simp add: upload_def)
next
  assume a: "4 \<le> length password \<and> folder_id = []"
  then have pw: "password \<noteq> []" by auto
  from serialize_upload_password[OF pw]
  show "(case serialize P (upload_kwargs file description password tags expire folder_id) of
             Inr data \<Rightarrow> map_of data ''password'' = Some password
           | Inl e \<Rightarrow> expire \<noteq> [] \<and> expire_value P expire = Inl e)"
    using a by simp
next
  assume "folder_id \<noteq> []"
  then show "serialize P (upload_kwargs file description password tags expire folder_id) =
            (if expire = [] then Inr [(''folderId'', folder_id)]
             else (case expire_value P expire of
                     Inl e \<Rightarrow> Inl e
                   | Inr s \<Rightarrow> Inr [(''folderId'', folder_id)]))"
    by (rule serialize_upload_folder_id)
next
  assume a: "4 \<le> length password \<and> isfile P file \<and> expire \<noteq> [] \<and> expire_value P expire = Inl e"
  then have pw: "\<not> length password < 4" by auto
  have "serialize P (upload_kwargs file description password tags expire folder_id) = Inl e"
    using a by (simp add: serialize_def upload_kwargs_def)
  with a pw show "upload P self file description password tags expire folder_id calls = (Inl e, calls)"
    by (simp add: upload_def)
next
  assume a: "4 \<le> length password \<and> isfile P file
        \<and> (expire = [] \<or> expire_value P expire = Inr ts)
        \<and> open_rb P file = Inr file_obj \<and> server P calls = (Inr srv, calls')
        \<and> urljoin P (API_format (str_json P srv)) ''uploadFile'' = Inr target"
  then have pw: "password \<noteq> []" "\<not> length password < 4" by auto
  from a have noexp: "\<not> (expire \<noteq> [] \<and> expire_value P expire = Inl e)" for e by auto
  show "\<exists>data. snd (upload P self file description password tags expire folder_id calls) =
                    calls' @ [Request POST target (Some data)]
                  \<and> map_of data ''password'' = (if folder_id = [] then Some (Text password) else None)
                  \<and> (folder_id \<noteq> [] \<longrightarrow>
                        data = [(''folderId'', Text folder_id)]
                                 @ (if no_token self then [] else [(''token'', Text (the (token self)))])
                                 @ [(''file'', file_obj)])"
  proof (cases "folder_id = []")
    case True
    have ser: "(case serialize P (upload_kwargs file description password tags expire []) of
              Inr m \<Rightarrow> map_of m ''password'' = Some password
            | Inl e \<Rightarrow> expire \<noteq> [] \<and> expire_value P expire = Inl e)"
      by (rule serialize_upload_password[OF pw(1)])
    obtain data0 where d0: "serialize P (upload_kwargs file description password tags expire []) = Inr data0"
      and look: "map_of data0 ''password'' = Some password"
      using ser noexp
      by (cases "serialize P (upload_kwargs file description password tags expire [])")
         auto
    define data1 where "data1 = map (\<lambda>(k, v). (k, Text v)) data0"
    have l1: "map_of data1 ''password'' = Some (Text password)"
      using look by (simp add: data1_def map_of_map)
    define data2 where "data2 = (if no_token self then data1
                             else AList.update ''token'' (Text (the (token self))) data1)"
    have l2: "map_of data2 ''password'' = Some (Text password)"
      using l1 by (simp add: data2_def update_conv')
    define data3 where "data3 = AList.update ''file'' file_obj data2"
    have l3: "map_of data3 ''password'' = Some (Text password)"
      using l2 by (simp add: data3_def update_conv')
    have "snd (upload P self file description password tags expire folder_id calls) =
            calls' @ [Request POST target (Some data3)]"
      using a pw d0 True
      by (simp add: upload_def Let_def send_def data3_def data2_def data1_def split: sum.splits)
    with l3 True show ?thesis
      by auto
  next
    case False
    have d0: "serialize P (upload_kwargs file description password tags expire folder_id) =
                Inr [(''folderId'', folder_id)]"
      using a by (auto simp: serialize_upload_folder_id[OF False])
    let ?data = "[(''folderId'', Text folder_id)]
                   @ (if no_token self then [] else [(''token'', Text (the (token self)))])
                   @ [(''file'', file_obj)]"
    have "snd (upload P self file description password tags expire folder_id calls) =
            calls' @ [Request POST target (Some ?data)]"
      using a pw d0
      by (simp add: upload_def Let_def send_def split: sum.splits)
    moreover have "map_of ?data ''password'' = None"
      by simp
    ultimately show ?thesis
      using False by auto
  qed
qed

text \<open>On the example platform: a three-character password; a four-character one without
  and with a folder id; and a four-character one with an expiry that is no date.\<close>

theorem upload_password_rule_witness:
  "upload utc_platform \<lparr>token = None\<rparr> ''a.txt'' [] ''abc'' [] [] [] [] =
     (Inl (ValueError (Some ''password is too short (min len 4)'')), [])
   \<and> serialize utc_platform (upload_kwargs ''a.txt'' [] ''abcd'' [] [] []) = Inr [(''password'', ''abcd'')]
   \<and> snd (upload utc_platform \<lparr>token = None\<rparr> ''a.txt'' [] ''abcd'' [] [] [] []) =
       [Request GET ''https://api.gofile.io/getServer'' None,
        Request POST ''https://store1.gofile.io/uploadFile''
          (Some [(''password'', Text ''abcd''), (''file'', FileObj ''a.txt'')])]
   \<and> serialize utc_platform (upload_kwargs ''a.txt'' [] ''abcd'' [] [] ''fid'') = Inr [(''folderId'', ''fid'')]
   \<and> snd (upload utc_platform \<lparr>token = Some ''tok''\<rparr> ''a.txt'' [] ''abcd'' [] [] ''fid'' []) =
       [Request GET ''https://api.gofile.io/getServer'' None,
        Request POST ''https://store1.gofile.io/uploadFile''
          (Some [(''folderId'', Text ''fid''), (''token'', Text ''tok''), (''file'', FileObj ''a.txt'')])]
   \<and> upload utc_platform \<lparr>token = None\<rparr> ''a.txt'' [] ''abcd'' [] ''garbage'' ''fid'' [] =
       (Inl (ValueError None), [])"
  using upload_password_rule[of "''abc''" utc_platform "\<lparr>token = None\<rparr>" "''a.txt''" "[]" "[]" "[]" "[]" "[]"]
    upload_password_rule[of "''abcd''" utc_platform "\<lparr>token = None\<rparr>" "''a.txt''" "[]" "[]" "[]" "[]" "[]"]
    upload_password_rule[of "''abcd''" utc_platform "\<lparr>token = Some ''tok''\<rparr>" "''a.txt''" "[]" "[]" "[]" "''fid''" "[]"]
    upload_password_rule[of "''abcd''" utc_platform "\<lparr>token = None\<rparr>" "''a.txt''" "[]" "[]" "''garbage''" "''fid''" "[]"
      "ValueError None"]
  by (simp add: upload_def serialize_def upload_kwargs_def utc_platform_def demo_net_def
      no_token_def server_def send_def parse_json_def urljoin_api str_json_def expire_value_garbage)

text \<open>C6 as stated fails when a \<open>folder_id\<close> is supplied: the four-character password
  is accepted, but the payload is \<open>{folderId: folder_id}\<close> and the file only, with no
  \<open>password\<close> key.\<close>

theorem upload_password_counterexample:
  "upload utc_platform \<lparr>token = None\<rparr> ''a.txt'' [] ''abcd'' [] [] ''x'' [] =
     (Inr (JDict []),
      [Request GET ''https://api.gofile.io/getServer'' None,
       Request POST ''https://store1.gofile.io/uploadFile''
         (Some [(''folderId'', Text ''x''), (''file'', FileObj ''a.txt'')])])
   \<and> serialize utc_platform (upload_kwargs ''a.txt'' [] ''abcd'' [] [] ''x'') = Inr [(''folderId'', ''x'')]"
  by (simp add: upload_def serialize_def upload_kwargs_def utc_platform_def demo_net_def
      no_token_def server_def send_def parse_json_def urljoin_api str_json_def)

end
